theory Spec2Isabelle
  imports Complex_Main
begin

section \<open>The session coordinator of src/server.ts\<close>

text \<open>
  The server is one \<^verbatim>\<open>io.on("connection", ...)\<close> callback that registers one listener
  per inbound event name. Every listener is modelled as a function from the server state,
  the environment of the call (clock, random suffix, the answers of the storage engine),
  the id of the sending socket and the payload to an outcome: the state afterwards, the
  messages handed to socket.io in order, and the exception that ended the listener, if any.
  Listeners are taken to run one at a time.
\<close>

subsection \<open>Tables\<close>

text \<open>
  The columns are those of \<^verbatim>\<open>initDb\<close>. A key column is named after its table
  (\<^verbatim>\<open>users.id\<close> is \<open>u_id\<close>, \<^verbatim>\<open>pins.id\<close> is \<open>p_id\<close>, and so on) because the
  tables share column names. Columns that no statement of the server ever writes are
  nullable; \<^verbatim>\<open>created_at\<close> is the engine's \<^verbatim>\<open>CURRENT_TIMESTAMP\<close>, a number here.
  A table is the list of its rows in insertion order.
\<close>

record trips_row =
  t_id :: string
  t_room_id :: string
  t_title :: string
  t_created_at :: nat

record users_row =
  u_id :: string
  nickname :: string
  avatar_url :: string
  status_emoji :: "string option"
  rps_wins :: int
  undo_used :: int

record pins_row =
  p_id :: string
  p_trip_id :: "string option"
  p_room_id :: "string option"
  place_id :: "string option"
  p_name :: "string option"
  lat :: "real option"
  lng :: "real option"
  assigned_day :: int
  time_slot :: "string option"
  order_idx :: int
  locked_by :: "string option"
  locked_until :: "string option"

record canvas_events_row =
  e_id :: string
  e_room_id :: string
  e_user_id :: string
  e_type :: string
  e_payload :: string
  e_created_at :: nat
  is_undone :: int

subsection \<open>Server state, environment, outcomes\<close>

text \<open>
  Besides the tables the only state is socket.io's own: which sockets have joined which
  room. The server keeps no variable of its own between two listeners.
\<close>

record server =
  trips :: "trips_row list"
  users :: "users_row list"
  pins :: "pins_row list"
  canvas_events :: "canvas_events_row list"
  rooms :: "string \<Rightarrow> string set"

text \<open>
  What a listener reads from outside: \<^verbatim>\<open>Date.now()\<close> in milliseconds, the suffix
  \<^verbatim>\<open>Math.random().toString(36).substr(2, 9)\<close>, the engine's clock, whether the engine
  carries out the k-th statement the listener issues (otherwise \<^verbatim>\<open>execute\<close>,
  \<^verbatim>\<open>query\<close> or \<^verbatim>\<open>get\<close> throws), and which of several rows with the same
  greatest sort key the engine returns first: SQL leaves that to the engine. SQLite hands
  rows of equal key on in table order, so that it returns the first inserted of them,
  which is \<open>tie = 0\<close>.
\<close>

record io_env =
  now :: nat
  rnd :: string
  db_clock :: nat
  db_ok :: "nat \<Rightarrow> bool"
  tie :: nat

datatype error = StorageFailure | UniqueViolation | BindFailure

text \<open>
  The argument of an inbound event where the listener takes it as it comes: a string, or
  an object with its fields.
\<close>

datatype payload = Str string | Obj "(string \<times> string) list"

datatype choice = ROCK | PAPER | SCISSORS

text \<open>The outbound events, each with the fields of the object literal the server emits.\<close>

datatype event =
    SYNC_TRIPS "trips_row list"
  | USER_JOINED string
  | PROFILE_UPDATED string string string
  | SYNC_ACTION string string string string
  | UNDO_EXECUTE string
  | PIN_DRAG_START string string
  | BATTLE_START string string string
  | RPS_CHOICE_RECEIVED string string choice
  | BATTLE_RESULT_SYNC string string
  | START_VOTE string string int string nat
  | VOTE_RECEIVED string string bool
  | VOTE_RESULT_SYNC bool string int
  | PIN_TIME_UPDATED string string int

text \<open>An emission is an event together with the sockets socket.io sends it to.\<close>

type_synonym emission = "string set \<times> event"

record outcome =
  after :: server
  sent :: "emission list"
  raised :: "error option"

definition finished :: "server \<Rightarrow> emission list \<Rightarrow> outcome" where
  "finished s es = \<lparr>after = s, sent = es, raised = None\<rparr>"

definition threw :: "server \<Rightarrow> error \<Rightarrow> outcome" where
  "threw s e = \<lparr>after = s, sent = [], raised = Some e\<rparr>"

subsection \<open>socket.io\<close>

text \<open>
  \<^verbatim>\<open>io.to(room).emit\<close> reaches every socket in the room, \<^verbatim>\<open>socket.to(room).emit\<close>
  every socket in the room but the sender, \<^verbatim>\<open>socket.emit\<close> the sender alone.
\<close>

definition io_to :: "server \<Rightarrow> string \<Rightarrow> event \<Rightarrow> emission" where
  "io_to s roomId ev = (rooms s roomId, ev)"

definition socket_to :: "server \<Rightarrow> string \<Rightarrow> string \<Rightarrow> event \<Rightarrow> emission" where
  "socket_to s sid roomId ev = (rooms s roomId - {sid}, ev)"

definition socket_emit :: "string \<Rightarrow> event \<Rightarrow> emission" where
  "socket_emit sid ev = ({sid}, ev)"

definition socket_join :: "server \<Rightarrow> string \<Rightarrow> string \<Rightarrow> server" where
  "socket_join s sid roomId = s\<lparr>rooms := (rooms s)(roomId := insert sid (rooms s roomId))\<rparr>"

subsection \<open>The SQL statements\<close>

text \<open>
  Each statement the listeners pass to \<^verbatim>\<open>query\<close>, \<^verbatim>\<open>get\<close> or \<^verbatim>\<open>execute\<close> is a
  function on the table it touches. The argument \<open>k\<close> is the position of the statement
  in its listener, and \<open>db_ok env k\<close> says whether the call returns or throws, for
  whatever reason the engine has. Under the PostgreSQL branch the three helpers first
  rewrite every \<^verbatim>\<open>?\<close> of the text with the second argument of the \<^verbatim>\<open>replace\<close>
  callback, which is the offset of the match in the text; whether the engine carries out
  the rewritten text is part of \<open>db_ok\<close> as well. UPDATE_PROFILE has a PostgreSQL
  statement of its own, with the same effect as the SQLite one.
\<close>

text \<open>\<^verbatim>\<open>SELECT * FROM trips WHERE room_id = ?\<close>\<close>

definition select_trips ::
  "io_env \<Rightarrow> nat \<Rightarrow> trips_row list \<Rightarrow> string \<Rightarrow> error + trips_row list" where
  "select_trips env k tbl roomId =
     (if db_ok env k then Inr (filter (\<lambda>t. t_room_id t = roomId) tbl)
      else Inl StorageFailure)"

text \<open>
  \<^verbatim>\<open>INSERT INTO users (id, nickname, avatar_url) VALUES (?, ?, ?) ON CONFLICT(id) DO UPDATE
  SET nickname=excluded.nickname, avatar_url=excluded.avatar_url\<close>; a new row takes the
  defaults of the schema in its other columns.
\<close>

definition upsert_user ::
  "io_env \<Rightarrow> nat \<Rightarrow> users_row list \<Rightarrow> string \<Rightarrow> string \<Rightarrow> string \<Rightarrow> error + users_row list" where
  "upsert_user env k tbl userId nick avatarUrl =
     (if \<not> db_ok env k then Inl StorageFailure
      else if list_ex (\<lambda>u. u_id u = userId) tbl
      then Inr (map (\<lambda>u. if u_id u = userId
                          then u\<lparr>nickname := nick, avatar_url := avatarUrl\<rparr> else u) tbl)
      else Inr (tbl @ [\<lparr>u_id = userId, nickname = nick, avatar_url = avatarUrl,
                        status_emoji = None, rps_wins = 0, undo_used = 0\<rparr>]))"

text \<open>
  \<^verbatim>\<open>INSERT INTO canvas_events (id, room_id, user_id, type, payload) VALUES (?, ?, ?, ?, ?)\<close>;
  \<^verbatim>\<open>id\<close> is the primary key, so a second row with the same id is refused.
\<close>

definition insert_canvas_event ::
  "io_env \<Rightarrow> nat \<Rightarrow> canvas_events_row list \<Rightarrow> string \<Rightarrow> string \<Rightarrow> string \<Rightarrow> string \<Rightarrow> string
     \<Rightarrow> error + canvas_events_row list" where
  "insert_canvas_event env k tbl eid roomId userId ty payload =
     (if \<not> db_ok env k then Inl StorageFailure
      else if list_ex (\<lambda>e. e_id e = eid) tbl then Inl UniqueViolation
      else Inr (tbl @ [\<lparr>e_id = eid, e_room_id = roomId, e_user_id = userId, e_type = ty,
                        e_payload = payload, e_created_at = db_clock env, is_undone = 0\<rparr>]))"

text \<open>
  \<^verbatim>\<open>SELECT * FROM canvas_events WHERE room_id = ? AND is_undone = 0 ORDER BY created_at
  DESC LIMIT 1\<close>, through \<^verbatim>\<open>get\<close>: the first row of the ordered result, or nothing.
  \<open>newest\<close> are the rows that no row of the selection exceeds in \<^verbatim>\<open>created_at\<close>;
  any of them may come first.
\<close>

definition undoable :: "canvas_events_row list \<Rightarrow> string \<Rightarrow> canvas_events_row list" where
  "undoable tbl roomId = filter (\<lambda>e. e_room_id e = roomId \<and> is_undone e = 0) tbl"

definition newest :: "canvas_events_row list \<Rightarrow> canvas_events_row list" where
  "newest sel = filter (\<lambda>e. list_all (\<lambda>e'. e_created_at e' \<le> e_created_at e) sel) sel"

definition last_canvas_event ::
  "io_env \<Rightarrow> nat \<Rightarrow> canvas_events_row list \<Rightarrow> string \<Rightarrow> error + canvas_events_row option" where
  "last_canvas_event env k tbl roomId =
     (if \<not> db_ok env k then Inl StorageFailure
      else (let top = newest (undoable tbl roomId)
            in if top = [] then Inr None
               else Inr (Some (top ! (tie env mod length top)))))"

text \<open>\<^verbatim>\<open>UPDATE canvas_events SET is_undone = 1 WHERE id = ?\<close>\<close>

definition set_is_undone :: "string \<Rightarrow> canvas_events_row list \<Rightarrow> canvas_events_row list" where
  "set_is_undone eid tbl = map (\<lambda>e. if e_id e = eid then e\<lparr>is_undone := 1\<rparr> else e) tbl"

definition mark_undone ::
  "io_env \<Rightarrow> nat \<Rightarrow> canvas_events_row list \<Rightarrow> string \<Rightarrow> error + canvas_events_row list" where
  "mark_undone env k tbl eid =
     (if db_ok env k then Inr (set_is_undone eid tbl) else Inl StorageFailure)"

text \<open>\<^verbatim>\<open>UPDATE pins SET assigned_day = ? WHERE id = ?\<close>\<close>

definition set_assigned_day ::
  "io_env \<Rightarrow> nat \<Rightarrow> pins_row list \<Rightarrow> int \<Rightarrow> string \<Rightarrow> error + pins_row list" where
  "set_assigned_day env k tbl targetDay pinId =
     (if db_ok env k
      then Inr (map (\<lambda>p. if p_id p = pinId then p\<lparr>assigned_day := targetDay\<rparr> else p) tbl)
      else Inl StorageFailure)"

text \<open>\<^verbatim>\<open>UPDATE pins SET time_slot = ?, assigned_day = ? WHERE id = ?\<close>\<close>

definition set_pin_time ::
  "io_env \<Rightarrow> nat \<Rightarrow> pins_row list \<Rightarrow> string \<Rightarrow> int \<Rightarrow> string \<Rightarrow> error + pins_row list" where
  "set_pin_time env k tbl timeSlot day pinId =
     (if db_ok env k
      then Inr (map (\<lambda>p. if p_id p = pinId
                          then p\<lparr>time_slot := Some timeSlot, assigned_day := day\<rparr> else p) tbl)
      else Inl StorageFailure)"

subsection \<open>Template strings\<close>

text \<open>The decimal digits of a number, as a template string prints \<^verbatim>\<open>Date.now()\<close>.\<close>

fun string_of_nat :: "nat \<Rightarrow> string" where
  "string_of_nat n =
     (if n < 10 then [''0123456789'' ! n]
      else string_of_nat (n div 10) @ [''0123456789'' ! (n mod 10)])"

declare string_of_nat.simps [simp del]

text \<open>
  The text that \<^verbatim>\<open>query\<close>, \<^verbatim>\<open>get\<close> and \<^verbatim>\<open>execute\<close> pass to the PostgreSQL pool:
  \<^verbatim>\<open>sql.replace(/\?/g, (_, i) => `$${i + 1}`)\<close>. The pattern has no group, so the
  callback's second argument is the offset of the match in the text.
\<close>

fun pg_placeholders_from :: "nat \<Rightarrow> string \<Rightarrow> string" where
  "pg_placeholders_from i [] = []"
| "pg_placeholders_from i (c # cs) =
     (if c = CHR ''?'' then ''$'' @ string_of_nat (i + 1) @ pg_placeholders_from (i + 1) cs
      else c # pg_placeholders_from (i + 1) cs)"

definition pg_placeholders :: "string \<Rightarrow> string" where
  "pg_placeholders sql = pg_placeholders_from 0 sql"

subsection \<open>The listeners\<close>

text \<open>\<^verbatim>\<open>socket.on("join_room", async (roomId) => ...)\<close>\<close>

definition on_join_room :: "io_env \<Rightarrow> server \<Rightarrow> string \<Rightarrow> string \<Rightarrow> outcome" where
  "on_join_room env s sid roomId =
     (let s1 = socket_join s sid roomId
      in case select_trips env 0 (trips s1) roomId of
           Inl e \<Rightarrow> threw s1 e
         | Inr ts \<Rightarrow> finished s1 [socket_emit sid (SYNC_TRIPS ts),
                                  io_to s1 roomId (USER_JOINED sid)])"

text \<open>\<^verbatim>\<open>socket.on("UPDATE_PROFILE", async (data) => ...)\<close>; both branches run the same statement.\<close>

definition on_UPDATE_PROFILE ::
  "io_env \<Rightarrow> server \<Rightarrow> string \<Rightarrow> string \<Rightarrow> string \<Rightarrow> string \<Rightarrow> string \<Rightarrow> outcome" where
  "on_UPDATE_PROFILE env s sid roomId userId nick avatarUrl =
     (case upsert_user env 0 (users s) userId nick avatarUrl of
        Inl e \<Rightarrow> threw s e
      | Inr us \<Rightarrow> finished (s\<lparr>users := us\<rparr>)
                   [io_to s roomId (PROFILE_UPDATED userId nick avatarUrl)])"

text \<open>
  \<^verbatim>\<open>socket.on("DRAW_ACTION", async (data) => ...)\<close>. The payload is kept as its JSON text,
  which is what \<^verbatim>\<open>JSON.stringify\<close> stores.
\<close>

definition on_DRAW_ACTION ::
  "io_env \<Rightarrow> server \<Rightarrow> string \<Rightarrow> string \<Rightarrow> string \<Rightarrow> string \<Rightarrow> string \<Rightarrow> outcome" where
  "on_DRAW_ACTION env s sid roomId userId ty payload =
     (let eid = ''evt_'' @ string_of_nat (now env) @ ''_'' @ rnd env
      in case insert_canvas_event env 0 (canvas_events s) eid roomId userId ty payload of
           Inl e \<Rightarrow> threw s e
         | Inr es \<Rightarrow> finished (s\<lparr>canvas_events := es\<rparr>)
                      [io_to s roomId (SYNC_ACTION eid userId ty payload)])"

text \<open>
  \<^verbatim>\<open>socket.on("UNDO_REQUEST", async (roomId) => ...)\<close>. The parameter is the argument
  of the event as the client sent it, and \<^verbatim>\<open>get\<close> binds it to the \<^verbatim>\<open>?\<close> of the
  statement as it is. The \<^verbatim>\<open>emit\<close> of the client's hook sends
  \<^verbatim>\<open>{ ...data, roomId }\<close>, so the undo button of the bundled client, which calls
  \<^verbatim>\<open>emit('UNDO_REQUEST', { roomId })\<close>, delivers the object \<^verbatim>\<open>{roomId: ...}\<close>.
  better-sqlite3 reads a plain object as named parameters, finds the anonymous \<^verbatim>\<open>?\<close>
  without a value and throws before anything is selected.
\<close>

definition on_UNDO_REQUEST :: "io_env \<Rightarrow> server \<Rightarrow> string \<Rightarrow> payload \<Rightarrow> outcome" where
  "on_UNDO_REQUEST env s sid arg =
     (case arg of
        Obj kvs \<Rightarrow> threw s (if db_ok env 0 then BindFailure else StorageFailure)
      | Str roomId \<Rightarrow>
          (case last_canvas_event env 0 (canvas_events s) roomId of
             Inl e \<Rightarrow> threw s e
           | Inr None \<Rightarrow> finished s []
           | Inr (Some lastEvent) \<Rightarrow>
               (case mark_undone env 1 (canvas_events s) (e_id lastEvent) of
                  Inl e \<Rightarrow> threw s e
                | Inr es \<Rightarrow> finished (s\<lparr>canvas_events := es\<rparr>)
                             [io_to s roomId (UNDO_EXECUTE (e_id lastEvent))])))"

text \<open>\<^verbatim>\<open>socket.on("DRAG_PIN", (data) => ...)\<close>\<close>

definition on_DRAG_PIN :: "server \<Rightarrow> string \<Rightarrow> string \<Rightarrow> string \<Rightarrow> string \<Rightarrow> outcome" where
  "on_DRAG_PIN s sid roomId pinId userId =
     finished s [socket_to s sid roomId (PIN_DRAG_START pinId userId)]"

text \<open>\<^verbatim>\<open>socket.on("BATTLE_START_TRIGGER", (data) => ...)\<close>\<close>

definition on_BATTLE_START_TRIGGER ::
  "server \<Rightarrow> string \<Rightarrow> string \<Rightarrow> string \<Rightarrow> string \<Rightarrow> string \<Rightarrow> outcome" where
  "on_BATTLE_START_TRIGGER s sid roomId pinId userA userB =
     finished s [io_to s roomId (BATTLE_START pinId userA userB)]"

text \<open>\<^verbatim>\<open>socket.on("RPS_CHOICE", (data) => ...)\<close>\<close>

definition on_RPS_CHOICE ::
  "server \<Rightarrow> string \<Rightarrow> string \<Rightarrow> string \<Rightarrow> string \<Rightarrow> choice \<Rightarrow> outcome" where
  "on_RPS_CHOICE s sid roomId battleId userId c =
     finished s [io_to s roomId (RPS_CHOICE_RECEIVED battleId userId c)]"

text \<open>\<^verbatim>\<open>socket.on("BATTLE_RESULT", (data) => ...)\<close>\<close>

definition on_BATTLE_RESULT :: "server \<Rightarrow> string \<Rightarrow> string \<Rightarrow> string \<Rightarrow> string \<Rightarrow> outcome" where
  "on_BATTLE_RESULT s sid roomId winnerId pinId =
     finished s [io_to s roomId (BATTLE_RESULT_SYNC winnerId pinId)]"

text \<open>
  \<^verbatim>\<open>socket.on("DROP_PIN", (data) => ...)\<close>. \<^verbatim>\<open>expiresAt\<close> is kept as the millisecond
  count that \<^verbatim>\<open>toISOString\<close> prints; the two readings of \<^verbatim>\<open>Date.now()\<close> are taken
  to fall in the same millisecond.
\<close>

definition on_DROP_PIN ::
  "io_env \<Rightarrow> server \<Rightarrow> string \<Rightarrow> string \<Rightarrow> string \<Rightarrow> int \<Rightarrow> string \<Rightarrow> outcome" where
  "on_DROP_PIN env s sid roomId pinId targetDay userId =
     finished s [io_to s roomId
       (START_VOTE (''vote_'' @ string_of_nat (now env)) pinId targetDay userId
          (now env + 15000))]"

text \<open>\<^verbatim>\<open>socket.on("SUBMIT_VOTE", (data) => ...)\<close>\<close>

definition on_SUBMIT_VOTE ::
  "server \<Rightarrow> string \<Rightarrow> string \<Rightarrow> string \<Rightarrow> string \<Rightarrow> bool \<Rightarrow> outcome" where
  "on_SUBMIT_VOTE s sid roomId voteId userId isAgree =
     finished s [io_to s roomId (VOTE_RECEIVED voteId userId isAgree)]"

text \<open>\<^verbatim>\<open>socket.on("VOTE_FINAL_RESULT", async (data) => ...)\<close>\<close>

definition on_VOTE_FINAL_RESULT ::
  "io_env \<Rightarrow> server \<Rightarrow> string \<Rightarrow> string \<Rightarrow> bool \<Rightarrow> string \<Rightarrow> int \<Rightarrow> outcome" where
  "on_VOTE_FINAL_RESULT env s sid roomId success pinId targetDay =
     (if success
      then (case set_assigned_day env 0 (pins s) targetDay pinId of
              Inl e \<Rightarrow> threw s e
            | Inr ps \<Rightarrow> finished (s\<lparr>pins := ps\<rparr>)
                         [io_to s roomId (VOTE_RESULT_SYNC success pinId targetDay)])
      else finished s [io_to s roomId (VOTE_RESULT_SYNC success pinId targetDay)])"

text \<open>\<^verbatim>\<open>socket.on("SET_PIN_TIME", async (data) => ...)\<close>\<close>

definition on_SET_PIN_TIME ::
  "io_env \<Rightarrow> server \<Rightarrow> string \<Rightarrow> string \<Rightarrow> string \<Rightarrow> string \<Rightarrow> int \<Rightarrow> outcome" where
  "on_SET_PIN_TIME env s sid roomId pinId timeSlot day =
     (case set_pin_time env 0 (pins s) timeSlot day pinId of
        Inl e \<Rightarrow> threw s e
      | Inr ps \<Rightarrow> finished (s\<lparr>pins := ps\<rparr>)
                   [io_to s roomId (PIN_TIME_UPDATED pinId timeSlot day)])"

subsection \<open>Dispatch\<close>

text \<open>The inbound events with their payload fields, and the listener each one reaches.\<close>

datatype message =
    join_room string
  | UPDATE_PROFILE string string string string
  | DRAW_ACTION string string string string
  | UNDO_REQUEST payload
  | DRAG_PIN string string string
  | BATTLE_START_TRIGGER string string string string
  | RPS_CHOICE string string string choice
  | BATTLE_RESULT string string string
  | DROP_PIN string string int string
  | SUBMIT_VOTE string string string bool
  | VOTE_FINAL_RESULT string bool string int
  | SET_PIN_TIME string string string int

fun handle :: "io_env \<Rightarrow> server \<Rightarrow> string \<Rightarrow> message \<Rightarrow> outcome" where
  "handle env s sid (join_room roomId) = on_join_room env s sid roomId"
| "handle env s sid (UPDATE_PROFILE roomId userId nick avatarUrl) =
     on_UPDATE_PROFILE env s sid roomId userId nick avatarUrl"
| "handle env s sid (DRAW_ACTION roomId userId ty payload) =
     on_DRAW_ACTION env s sid roomId userId ty payload"
| "handle env s sid (UNDO_REQUEST arg) = on_UNDO_REQUEST env s sid arg"
| "handle env s sid (DRAG_PIN roomId pinId userId) = on_DRAG_PIN s sid roomId pinId userId"
| "handle env s sid (BATTLE_START_TRIGGER roomId pinId userA userB) =
     on_BATTLE_START_TRIGGER s sid roomId pinId userA userB"
| "handle env s sid (RPS_CHOICE roomId battleId userId c) =
     on_RPS_CHOICE s sid roomId battleId userId c"
| "handle env s sid (BATTLE_RESULT roomId winnerId pinId) =
     on_BATTLE_RESULT s sid roomId winnerId pinId"
| "handle env s sid (DROP_PIN roomId pinId targetDay userId) =
     on_DROP_PIN env s sid roomId pinId targetDay userId"
| "handle env s sid (SUBMIT_VOTE roomId voteId userId isAgree) =
     on_SUBMIT_VOTE s sid roomId voteId userId isAgree"
| "handle env s sid (VOTE_FINAL_RESULT roomId success pinId targetDay) =
     on_VOTE_FINAL_RESULT env s sid roomId success pinId targetDay"
| "handle env s sid (SET_PIN_TIME roomId pinId timeSlot day) =
     on_SET_PIN_TIME env s sid roomId pinId timeSlot day"

text \<open>
  A run delivers inbound events one after the other, each from its socket and in its
  environment, and collects the emissions. It ends at the first listener that throws:
  what the runtime does with the process then is outside the model.
\<close>

fun run :: "server \<Rightarrow> (io_env \<times> string \<times> message) list \<Rightarrow> outcome" where
  "run s [] = finished s []"
| "run s ((env, sid, m) # rest) =
     (let o1 = handle env s sid m
      in case raised o1 of
           Some e \<Rightarrow> o1
         | None \<Rightarrow> (let o2 = run (after o1) rest in o2\<lparr>sent := sent o1 @ sent o2\<rparr>))"

subsection \<open>Classes of inbound events\<close>

text \<open>The events whose listeners issue no statement and touch no state.\<close>

fun stateless :: "message \<Rightarrow> bool" where
  "stateless (DRAG_PIN _ _ _) = True"
| "stateless (BATTLE_START_TRIGGER _ _ _ _) = True"
| "stateless (RPS_CHOICE _ _ _ _) = True"
| "stateless (BATTLE_RESULT _ _ _) = True"
| "stateless (DROP_PIN _ _ _ _) = True"
| "stateless (SUBMIT_VOTE _ _ _ _) = True"
| "stateless _ = False"

fun choice_or_ballot :: "message \<Rightarrow> bool" where
  "choice_or_ballot (RPS_CHOICE _ _ _ _) = True"
| "choice_or_ballot (SUBMIT_VOTE _ _ _ _) = True"
| "choice_or_ballot _ = False"

fun opens_arbitration :: "message \<Rightarrow> bool" where
  "opens_arbitration (BATTLE_START_TRIGGER _ _ _ _) = True"
| "opens_arbitration (DROP_PIN _ _ _ _) = True"
| "opens_arbitration _ = False"

fun ballot :: "message \<Rightarrow> bool" where
  "ballot (SUBMIT_VOTE _ _ _ _) = True"
| "ballot _ = False"

subsection \<open>The rules of the specification\<close>

text \<open>
  The duel and vote rules in the words of the specification, to compare with what the
  listeners do: ROCK beats SCISSORS, SCISSORS beats PAPER, PAPER beats ROCK, equal choices
  give no winner; a vote succeeds when more of the ballots cast agree than disagree.
\<close>

definition spec_beats :: "choice \<Rightarrow> choice \<Rightarrow> bool" where
  "spec_beats x y =
     (x = ROCK \<and> y = SCISSORS \<or> x = SCISSORS \<and> y = PAPER \<or> x = PAPER \<and> y = ROCK)"

definition spec_duel_winner :: "string \<Rightarrow> choice \<Rightarrow> string \<Rightarrow> choice \<Rightarrow> string option" where
  "spec_duel_winner a ca b cb =
     (if spec_beats ca cb then Some a else if spec_beats cb ca then Some b else None)"

definition spec_vote_success :: "bool list \<Rightarrow> bool" where
  "spec_vote_success ballots =
     (length (filter (\<lambda>b. \<not> b) ballots) < length (filter (\<lambda>b. b) ballots))"

subsection \<open>Example states\<close>

text \<open>
  A room with three connected sockets and one unscheduled pin, an engine that carries out
  every statement, and one that carries out none.
\<close>

definition env_ok :: "nat \<Rightarrow> io_env" where
  "env_ok t = \<lparr>now = t, rnd = ''k3j9x0a1z'', db_clock = t div 1000,
               db_ok = (\<lambda>k. True), tie = 0\<rparr>"

definition env_down :: "nat \<Rightarrow> io_env" where
  "env_down t = \<lparr>now = t, rnd = ''k3j9x0a1z'', db_clock = t div 1000,
                 db_ok = (\<lambda>k. False), tie = 0\<rparr>"

definition pin3 :: pins_row where
  "pin3 = \<lparr>p_id = ''pin-3'', p_trip_id = Some ''trip_1'', p_room_id = Some ''room-1'',
           place_id = None, p_name = Some ''Museum'', lat = Some 48, lng = Some 2,
           assigned_day = 0, time_slot = None, order_idx = 0, locked_by = None,
           locked_until = None\<rparr>"

definition room1 :: server where
  "room1 = \<lparr>trips = [], users = [], pins = [pin3], canvas_events = [],
            rooms = (\<lambda>r. if r = ''room-1'' then {''sock-A'', ''sock-B'', ''sock-C''} else {})\<rparr>"

text \<open>Users with a profile each, and a canvas log with two strokes in the room and one elsewhere.\<close>

definition alice :: users_row where
  "alice = \<lparr>u_id = ''A'', nickname = ''alice'', avatar_url = ''a.png'',
            status_emoji = Some ''x'', rps_wins = 3, undo_used = 1\<rparr>"

definition bob :: users_row where
  "bob = \<lparr>u_id = ''B'', nickname = ''bob'', avatar_url = ''b.png'',
          status_emoji = None, rps_wins = 0, undo_used = 4\<rparr>"

definition room2 :: server where
  "room2 = room1\<lparr>users := [alice, bob]\<rparr>"

definition stroke1 :: canvas_events_row where
  "stroke1 = \<lparr>e_id = ''evt_1000_aaa'', e_room_id = ''room-1'', e_user_id = ''A'',
              e_type = ''stroke'', e_payload = ''[[1,2]]'', e_created_at = 1, is_undone = 0\<rparr>"

definition stroke2 :: canvas_events_row where
  "stroke2 = \<lparr>e_id = ''evt_2000_bbb'', e_room_id = ''room-1'', e_user_id = ''B'',
              e_type = ''stroke'', e_payload = ''[[3,4]]'', e_created_at = 2, is_undone = 0\<rparr>"

definition stroke3 :: canvas_events_row where
  "stroke3 = \<lparr>e_id = ''evt_2000_ccc'', e_room_id = ''room-2'', e_user_id = ''Z'',
              e_type = ''stroke'', e_payload = ''[[5,6]]'', e_created_at = 2, is_undone = 0\<rparr>"

definition room3 :: server where
  "room3 = room1\<lparr>canvas_events := [stroke1, stroke2, stroke3]\<rparr>"

text \<open>Sequences of inbound events used below.\<close>

definition duel_trace :: "(io_env \<times> string \<times> message) list" where
  "duel_trace =
     [(env_ok 1000, ''sock-A'', BATTLE_START_TRIGGER ''room-1'' ''pin-7'' ''A'' ''B''),
      (env_ok 2000, ''sock-A'', RPS_CHOICE ''room-1'' ''b1'' ''A'' ROCK),
      (env_ok 3000, ''sock-B'', RPS_CHOICE ''room-1'' ''b1'' ''B'' SCISSORS),
      (env_ok 5000, ''sock-B'', BATTLE_RESULT ''room-1'' ''B'' ''pin-7'')]"

definition openings_trace :: "(io_env \<times> string \<times> message) list" where
  "openings_trace =
     [(env_ok 1000, ''sock-A'', BATTLE_START_TRIGGER ''room-1'' ''pin-7'' ''A'' ''B''),
      (env_ok 2000, ''sock-C'', BATTLE_START_TRIGGER ''room-1'' ''pin-7'' ''C'' ''A''),
      (env_ok 3000, ''sock-B'', DROP_PIN ''room-1'' ''pin-7'' 2 ''B''),
      (env_ok 4000, ''sock-C'', DROP_PIN ''room-1'' ''pin-7'' 5 ''C'')]"

definition vote_trace :: "bool \<Rightarrow> (io_env \<times> string \<times> message) list" where
  "vote_trace success =
     [(env_ok 1000, ''sock-A'', DROP_PIN ''room-1'' ''pin-3'' 2 ''A''),
      (env_ok 2000, ''sock-A'', SUBMIT_VOTE ''room-1'' ''vote_1000'' ''A'' False),
      (env_ok 3000, ''sock-B'', SUBMIT_VOTE ''room-1'' ''vote_1000'' ''B'' False),
      (env_ok 4000, ''sock-C'', SUBMIT_VOTE ''room-1'' ''vote_1000'' ''C'' False),
      (env_ok 5000, ''sock-A'', VOTE_FINAL_RESULT ''room-1'' success ''pin-3'' 2)]"

definition revote_trace :: "bool \<Rightarrow> (io_env \<times> string \<times> message) list" where
  "revote_trace success =
     [(env_ok 1000, ''sock-A'', DROP_PIN ''room-1'' ''pin-3'' 2 ''A''),
      (env_ok 2000, ''sock-B'', SUBMIT_VOTE ''room-1'' ''vote_1000'' ''B'' True),
      (env_ok 3000, ''sock-B'', SUBMIT_VOTE ''room-1'' ''vote_1000'' ''B'' False),
      (env_ok 5000, ''sock-A'', VOTE_FINAL_RESULT ''room-1'' success ''pin-3'' 2)]"

definition early_ballots :: "(io_env \<times> string \<times> message) list" where
  "early_ballots =
     [(env_ok 2000, ''sock-B'', SUBMIT_VOTE ''room-1'' ''vote_1000'' ''B'' True),
      (env_ok 3000, ''sock-B'', SUBMIT_VOTE ''room-1'' ''vote_1000'' ''B'' False)]"

definition late_ballots :: "(io_env \<times> string \<times> message) list" where
  "late_ballots =
     [(env_ok 9000, ''sock-C'', SUBMIT_VOTE ''room-1'' ''vote_1000'' ''C'' False)]"

definition undo_thrice :: "(io_env \<times> string \<times> message) list" where
  "undo_thrice =
     [(env_ok 9000, ''sock-A'', UNDO_REQUEST (Str ''room-1'')),
      (env_ok 9500, ''sock-B'', UNDO_REQUEST (Str ''room-1'')),
      (env_ok 9900, ''sock-A'', UNDO_REQUEST (Str ''room-1''))]"

text \<open>Three strokes drawn in the room within one second of the engine's clock.\<close>

definition three_strokes :: "(io_env \<times> string \<times> message) list" where
  "three_strokes =
     [(env_ok 1000, ''sock-A'', DRAW_ACTION ''room-1'' ''A'' ''stroke'' ''[[1,2]]''),
      (env_ok 1200, ''sock-A'', DRAW_ACTION ''room-1'' ''A'' ''stroke'' ''[[3,4]]''),
      (env_ok 1400, ''sock-A'', DRAW_ACTION ''room-1'' ''A'' ''stroke'' ''[[5,6]]'')]"

definition undo_once :: "(io_env \<times> string \<times> message) list" where
  "undo_once = [(env_ok 2000, ''sock-A'', UNDO_REQUEST (Str ''room-1''))]"

definition undo_twice :: "(io_env \<times> string \<times> message) list" where
  "undo_twice =
     [(env_ok 2000, ''sock-A'', UNDO_REQUEST (Str ''room-1'')),
      (env_ok 2500, ''sock-A'', UNDO_REQUEST (Str ''room-1''))]"

section \<open>Properties\<close>

lemmas listener_defs = on_join_room_def on_UPDATE_PROFILE_def on_DRAW_ACTION_def
  on_UNDO_REQUEST_def on_DRAG_PIN_def on_BATTLE_START_TRIGGER_def on_RPS_CHOICE_def
  on_BATTLE_RESULT_def on_DROP_PIN_def on_SUBMIT_VOTE_def on_VOTE_FINAL_RESULT_def
  on_SET_PIN_TIME_def finished_def threw_def io_to_def socket_to_def socket_emit_def
  socket_join_def

subsection \<open>Runs\<close>

lemma handle_stateless:
  "stateless m \<Longrightarrow> after (handle env s sid m) = s \<and> raised (handle env s sid m) = None
     \<and> length (sent (handle env s sid m)) = 1"
  by (cases m) (simp_all add: on_DRAG_PIN_def on_BATTLE_START_TRIGGER_def on_RPS_CHOICE_def
      on_BATTLE_RESULT_def on_DROP_PIN_def on_SUBMIT_VOTE_def finished_def)

lemma run_stateless:
  "list_all (\<lambda>x. stateless (snd (snd x))) tr \<Longrightarrow>
     after (run s tr) = s \<and> raised (run s tr) = None \<and> length (sent (run s tr)) = length tr"
proof (induction tr)
  case Nil
  then show ?case by (simp add: finished_def)
next
  case (Cons x tr)
  obtain env sid m where x: "x = (env, sid, m)" by (cases x) auto
  from Cons.prems x have m: "stateless m" and rest: "list_all (\<lambda>x. stateless (snd (snd x))) tr"
    by simp_all
  from handle_stateless [OF m, of env s sid] Cons.IH [OF rest] x
  show ?case by (simp add: Let_def)
qed

lemma run_append:
  "raised (run s tr1) = None \<Longrightarrow>
     run s (tr1 @ tr2) =
       (run (after (run s tr1)) tr2)
         \<lparr>sent := sent (run s tr1) @ sent (run (after (run s tr1)) tr2)\<rparr>"
proof (induction tr1 arbitrary: s)
  case Nil
  then show ?case by (simp add: finished_def)
next
  case (Cons x tr1)
  obtain env sid m where x: "x = (env, sid, m)" by (cases x) auto
  show ?case
  proof (cases "raised (handle env s sid m)")
    case None
    with Cons.prems x have "raised (run (after (handle env s sid m)) tr1) = None"
      by (simp add: Let_def)
    from Cons.IH [OF this] None x show ?thesis by (simp add: Let_def)
  next
    case (Some e)
    with Cons.prems x show ?thesis by (simp add: Let_def)
  qed
qed

lemma choice_or_ballot_stateless:
  "list_all (\<lambda>x. choice_or_ballot (snd (snd x))) tr \<Longrightarrow>
     list_all (\<lambda>x. stateless (snd (snd x))) tr"
  by (induction tr) (auto elim: choice_or_ballot.elims)

lemma opens_arbitration_stateless:
  "list_all (\<lambda>x. opens_arbitration (snd (snd x))) tr \<Longrightarrow>
     list_all (\<lambda>x. stateless (snd (snd x))) tr"
  by (induction tr) (auto elim: opens_arbitration.elims)

lemma ballot_stateless:
  "list_all (\<lambda>x. ballot (snd (snd x))) tr \<Longrightarrow> list_all (\<lambda>x. stateless (snd (snd x))) tr"
  by (induction tr) (auto elim: ballot.elims)

subsection \<open>The duel\<close>

text \<open>
  C1, as the specification states it, fails. In the room of three, A and B are put in a duel
  over pin-7, A sends ROCK and B sends SCISSORS. After both choices the server has
  emitted the challenge and the two relayed choices and no result of its own. B's client
  then announces B as the winner and the server broadcasts exactly that, although ROCK
  beats SCISSORS and the rule of the specification names A.
\<close>

theorem duel_winner_is_client_named:
  "map snd (sent (run room1 (take 3 duel_trace))) =
     [BATTLE_START ''pin-7'' ''A'' ''B'', RPS_CHOICE_RECEIVED ''b1'' ''A'' ROCK,
      RPS_CHOICE_RECEIVED ''b1'' ''B'' SCISSORS]
   \<and> map snd (sent (run room1 duel_trace)) =
     [BATTLE_START ''pin-7'' ''A'' ''B'', RPS_CHOICE_RECEIVED ''b1'' ''A'' ROCK,
      RPS_CHOICE_RECEIVED ''b1'' ''B'' SCISSORS, BATTLE_RESULT_SYNC ''B'' ''pin-7'']
   \<and> spec_duel_winner ''A'' ROCK ''B'' SCISSORS = Some ''A''"
  by (simp add: duel_trace_def listener_defs Let_def spec_duel_winner_def spec_beats_def)

text \<open>
  C1, amended. Once both participants have sent a choice the server has determined
  nothing: each choice is relayed to the room, and the winner it broadcasts is the
  \<^verbatim>\<open>winnerId\<close> of whatever BATTLE_RESULT event arrives next, for every pair of choices,
  equal or not. Equal choices restart nothing, and the server state is the same after the
  three events as before.
\<close>

theorem duel_is_relayed:
  "run s [(e1, s1, RPS_CHOICE roomId battleId userA ca),
          (e2, s2, RPS_CHOICE roomId battleId userB cb),
          (e3, s3, BATTLE_RESULT roomId winnerId pinId)] =
     \<lparr>after = s,
      sent = [(rooms s roomId, RPS_CHOICE_RECEIVED battleId userA ca),
              (rooms s roomId, RPS_CHOICE_RECEIVED battleId userB cb),
              (rooms s roomId, BATTLE_RESULT_SYNC winnerId pinId)],
      raised = None\<rparr>"
  by (simp add: listener_defs Let_def)

theorem duel_is_relayed_witness:
  "spec_duel_winner ''A'' PAPER ''B'' PAPER = None
   \<and> run room1 [(env_ok 2000, ''sock-A'', RPS_CHOICE ''room-1'' ''b1'' ''A'' PAPER),
                (env_ok 3000, ''sock-B'', RPS_CHOICE ''room-1'' ''b1'' ''B'' PAPER),
                (env_ok 5000, ''sock-A'', BATTLE_RESULT ''room-1'' ''A'' ''pin-7'')] =
       \<lparr>after = room1,
        sent = [(rooms room1 ''room-1'', RPS_CHOICE_RECEIVED ''b1'' ''A'' PAPER),
                (rooms room1 ''room-1'', RPS_CHOICE_RECEIVED ''b1'' ''B'' PAPER),
                (rooms room1 ''room-1'', BATTLE_RESULT_SYNC ''A'' ''pin-7'')],
        raised = None\<rparr>"
proof -
  have "spec_duel_winner ''A'' PAPER ''B'' PAPER = None"
    by (simp add: spec_duel_winner_def spec_beats_def)
  with duel_is_relayed [of room1 "env_ok 2000" "''sock-A''" "''room-1''" "''b1''" "''A''" PAPER
      "env_ok 3000" "''sock-B''" "''B''" PAPER "env_ok 5000" "''sock-A''" "''A''" "''pin-7''"]
  show ?thesis by blast
qed

subsection \<open>The vote\<close>

text \<open>
  C2, as the specification states it, fails. A vote over pin-3 is opened, all three members
  send a ballot against, and then a client sends VOTE_FINAL_RESULT with
  \<^verbatim>\<open>success: true\<close>. By the rule of the specification the vote has failed; the server
  sets the pin's day from 0 to 2 and broadcasts success.
\<close>

theorem minority_vote_reschedules_pin:
  "spec_vote_success [False, False, False] = False
   \<and> map assigned_day (pins room1) = [0]
   \<and> map assigned_day (pins (after (run room1 (vote_trace True)))) = [2]
   \<and> snd (last (sent (run room1 (vote_trace True)))) = VOTE_RESULT_SYNC True ''pin-3'' 2"
  by (simp add: vote_trace_def listener_defs Let_def spec_vote_success_def room1_def pin3_def
      env_ok_def set_assigned_day_def)

text \<open>
  C2, amended. Success is the flag that the VOTE_FINAL_RESULT event carries; the server
  counts no ballots. Exactly when the flag is true and the engine carries out the
  statement, the rows of \<^verbatim>\<open>pins\<close> whose id is \<^verbatim>\<open>pinId\<close> get \<^verbatim>\<open>assigned_day =
  targetDay\<close> and every other row and column of \<^verbatim>\<open>pins\<close> stays; the other tables and
  the rooms never change. When the flag is false the whole state stays and the failure is
  broadcast; when the flag is true and the write went through, success is broadcast.
\<close>

theorem vote_result_applies_client_flag:
  "trips (after (handle env s sid (VOTE_FINAL_RESULT roomId success pinId targetDay))) = trips s
   \<and> users (after (handle env s sid (VOTE_FINAL_RESULT roomId success pinId targetDay))) = users s
   \<and> canvas_events (after (handle env s sid (VOTE_FINAL_RESULT roomId success pinId targetDay)))
       = canvas_events s
   \<and> rooms (after (handle env s sid (VOTE_FINAL_RESULT roomId success pinId targetDay))) = rooms s
   \<and> pins (after (handle env s sid (VOTE_FINAL_RESULT roomId success pinId targetDay))) =
       (if success \<and> db_ok env 0
        then map (\<lambda>p. if p_id p = pinId then p\<lparr>assigned_day := targetDay\<rparr> else p) (pins s)
        else pins s)
   \<and> (\<not> success \<longrightarrow>
        handle env s sid (VOTE_FINAL_RESULT roomId success pinId targetDay) =
          \<lparr>after = s, sent = [(rooms s roomId, VOTE_RESULT_SYNC False pinId targetDay)],
           raised = None\<rparr>)
   \<and> (success \<and> db_ok env 0 \<longrightarrow>
        sent (handle env s sid (VOTE_FINAL_RESULT roomId success pinId targetDay)) =
          [(rooms s roomId, VOTE_RESULT_SYNC True pinId targetDay)]
        \<and> raised (handle env s sid (VOTE_FINAL_RESULT roomId success pinId targetDay)) = None)"
  by (simp add: on_VOTE_FINAL_RESULT_def set_assigned_day_def finished_def threw_def io_to_def)

theorem vote_result_applies_client_flag_witness:
  "map assigned_day
     (pins (after (handle (env_ok 5000) room1 ''sock-A''
        (VOTE_FINAL_RESULT ''room-1'' True ''pin-3'' 2)))) = [2]
   \<and> handle (env_ok 5000) room1 ''sock-A'' (VOTE_FINAL_RESULT ''room-1'' False ''pin-3'' 2) =
       \<lparr>after = room1,
        sent = [(rooms room1 ''room-1'', VOTE_RESULT_SYNC False ''pin-3'' 2)], raised = None\<rparr>"
  using vote_result_applies_client_flag [of "env_ok 5000" room1 "''sock-A''" "''room-1''" True
      "''pin-3''" 2]
    vote_result_applies_client_flag [of "env_ok 5000" room1 "''sock-A''" "''room-1''" False
      "''pin-3''" 2]
  by (simp add: env_ok_def room1_def pin3_def)

text \<open>
  C7, as the specification states it, fails. B votes for and then against while the vote is
  open: both ballots are relayed to the room and the server keeps neither, so there is
  nothing the second could overwrite. And the outcome is not a function of the ballots:
  after the very same three events, a final result with \<^verbatim>\<open>success: true\<close> moves the pin
  to day 2 and one with \<^verbatim>\<open>success: false\<close> leaves it on day 0.
\<close>

theorem same_ballots_two_outcomes:
  "map snd (sent (run room1 (take 3 (revote_trace True)))) =
     [START_VOTE ''vote_1000'' ''pin-3'' 2 ''A'' 16000,
      VOTE_RECEIVED ''vote_1000'' ''B'' True, VOTE_RECEIVED ''vote_1000'' ''B'' False]
   \<and> take 3 (revote_trace True) = take 3 (revote_trace False)
   \<and> map assigned_day (pins (after (run room1 (revote_trace True)))) = [2]
   \<and> map assigned_day (pins (after (run room1 (revote_trace False)))) = [0]"
  by (simp add: revote_trace_def listener_defs Let_def room1_def pin3_def
      env_ok_def set_assigned_day_def string_of_nat.simps)

text \<open>
  C7, amended. A ballot never reaches the outcome, whether it arrives before or after
  the vote is finalized: the state after any ballots, a VOTE_FINAL_RESULT event and any
  further ballots is the state after that VOTE_FINAL_RESULT event alone, pins included.
  A ballot sent again by the same participant is relayed to the room as one more
  VOTE_RECEIVED next to the first; the server stores no ballot and overwrites none.
\<close>

theorem ballots_never_reach_the_outcome:
  "(list_all (\<lambda>x. ballot (snd (snd x))) early \<and> list_all (\<lambda>x. ballot (snd (snd x))) late \<longrightarrow>
      after (run s (early @ (env, sid, VOTE_FINAL_RESULT roomId success pinId targetDay) # late))
        = after (handle env s sid (VOTE_FINAL_RESULT roomId success pinId targetDay)))
   \<and> run s [(e1, s1, SUBMIT_VOTE roomId voteId userId a1),
            (e2, s2, SUBMIT_VOTE roomId voteId userId a2)] =
       \<lparr>after = s,
        sent = [(rooms s roomId, VOTE_RECEIVED voteId userId a1),
                (rooms s roomId, VOTE_RECEIVED voteId userId a2)],
        raised = None\<rparr>"
proof -
  let ?fin = "(env, sid, VOTE_FINAL_RESULT roomId success pinId targetDay)"
  let ?o = "handle env s sid (VOTE_FINAL_RESULT roomId success pinId targetDay)"
  have "after (run s (early @ ?fin # late)) = after ?o"
    if e: "list_all (\<lambda>x. ballot (snd (snd x))) early"
      and l: "list_all (\<lambda>x. ballot (snd (snd x))) late"
  proof -
    from run_stateless [OF ballot_stateless [OF e], of s]
    have e1: "after (run s early) = s" and e2: "raised (run s early) = None" by simp_all
    have "after (run s (early @ ?fin # late)) = after (run s (?fin # late))"
      using run_append [OF e2, of "?fin # late"] e1 by simp
    also have "\<dots> = after ?o"
    proof (cases "raised ?o")
      case None
      then show ?thesis
        using run_stateless [OF ballot_stateless [OF l], of "after ?o"]
        by (simp add: Let_def)
    next
      case (Some e)
      then show ?thesis by (simp add: Let_def)
    qed
    finally show ?thesis .
  qed
  moreover have "run s [(e1, s1, SUBMIT_VOTE roomId voteId userId a1),
            (e2, s2, SUBMIT_VOTE roomId voteId userId a2)] =
       \<lparr>after = s,
        sent = [(rooms s roomId, VOTE_RECEIVED voteId userId a1),
                (rooms s roomId, VOTE_RECEIVED voteId userId a2)],
        raised = None\<rparr>"
    by (simp add: on_SUBMIT_VOTE_def finished_def io_to_def Let_def)
  ultimately show ?thesis by blast
qed

theorem ballots_never_reach_the_outcome_witness:
  "list_all (\<lambda>x. ballot (snd (snd x))) early_ballots
   \<and> list_all (\<lambda>x. ballot (snd (snd x))) late_ballots
   \<and> map assigned_day (pins (after (run room1
       (early_ballots @ (env_ok 5000, ''sock-A'', VOTE_FINAL_RESULT ''room-1'' True ''pin-3'' 2)
          # late_ballots)))) = [2]"
proof -
  have h: "list_all (\<lambda>x. ballot (snd (snd x))) early_ballots
      \<and> list_all (\<lambda>x. ballot (snd (snd x))) late_ballots"
    by (simp add: early_ballots_def late_ballots_def)
  have "after (run room1
       (early_ballots @ (env_ok 5000, ''sock-A'', VOTE_FINAL_RESULT ''room-1'' True ''pin-3'' 2)
          # late_ballots))
     = after (handle (env_ok 5000) room1 ''sock-A'' (VOTE_FINAL_RESULT ''room-1'' True ''pin-3'' 2))"
    using ballots_never_reach_the_outcome [of early_ballots late_ballots room1 "env_ok 5000"
        "''sock-A''" "''room-1''" True "''pin-3''" 2] h by blast
  moreover have "map assigned_day (pins (after (handle (env_ok 5000) room1 ''sock-A''
      (VOTE_FINAL_RESULT ''room-1'' True ''pin-3'' 2)))) = [2]"
    by (simp add: listener_defs room1_def pin3_def env_ok_def set_assigned_day_def)
  ultimately show ?thesis using h by simp
qed

subsection \<open>Opening an arbitration\<close>

text \<open>
  C3, as the specification states it, fails. With a duel over pin-7 between A and B just
  opened, a second duel over pin-7, a vote on pin-7 and a second vote on pin-7 are
  requested. None is rejected: the room receives all four openings.
\<close>

theorem second_arbitration_is_opened:
  "run room1 openings_trace =
     \<lparr>after = room1,
      sent = [({''sock-A'', ''sock-B'', ''sock-C''}, BATTLE_START ''pin-7'' ''A'' ''B''),
              ({''sock-A'', ''sock-B'', ''sock-C''}, BATTLE_START ''pin-7'' ''C'' ''A''),
              ({''sock-A'', ''sock-B'', ''sock-C''},
                 START_VOTE ''vote_3000'' ''pin-7'' 2 ''B'' 18000),
              ({''sock-A'', ''sock-B'', ''sock-C''},
                 START_VOTE ''vote_4000'' ''pin-7'' 5 ''C'' 19000)],
      raised = None\<rparr>"
  by (simp add: openings_trace_def listener_defs Let_def env_ok_def room1_def
      string_of_nat.simps)

text \<open>
  C3, amended. The server keeps no record of an arbitration, so there is none to protect
  and none to collide with: in every state a BATTLE_START_TRIGGER event is broadcast to
  the room as BATTLE_START and a DROP_PIN event as START_VOTE, neither is ever rejected,
  and the state stays as it was. Any sequence of such events, whatever pins they name,
  yields one broadcast per event and the state it started from.
\<close>

theorem every_opening_is_broadcast:
  "handle env s sid (BATTLE_START_TRIGGER roomId pinId userA userB) =
     \<lparr>after = s, sent = [(rooms s roomId, BATTLE_START pinId userA userB)], raised = None\<rparr>
   \<and> handle env s sid (DROP_PIN roomId pinId targetDay userId) =
     \<lparr>after = s,
      sent = [(rooms s roomId,
               START_VOTE (''vote_'' @ string_of_nat (now env)) pinId targetDay userId
                 (now env + 15000))],
      raised = None\<rparr>
   \<and> (list_all (\<lambda>x. opens_arbitration (snd (snd x))) tr \<longrightarrow>
        after (run s tr) = s \<and> raised (run s tr) = None \<and> length (sent (run s tr)) = length tr)"
  using run_stateless [OF opens_arbitration_stateless, of tr s]
  by (simp add: on_BATTLE_START_TRIGGER_def on_DROP_PIN_def finished_def io_to_def)

theorem every_opening_is_broadcast_witness:
  "list_all (\<lambda>x. opens_arbitration (snd (snd x))) openings_trace
   \<and> after (run room1 openings_trace) = room1
   \<and> raised (run room1 openings_trace) = None
   \<and> length (sent (run room1 openings_trace)) = 4"
proof -
  have h: "list_all (\<lambda>x. opens_arbitration (snd (snd x))) openings_trace"
    by (simp add: openings_trace_def)
  have "after (run room1 openings_trace) = room1 \<and> raised (run room1 openings_trace) = None
          \<and> length (sent (run room1 openings_trace)) = length openings_trace"
    using every_opening_is_broadcast [of _ room1 _ _ _ _ _ _ _ openings_trace] h by blast
  moreover have "length openings_trace = 4" by (simp add: openings_trace_def)
  ultimately show ?thesis using h by simp
qed

subsection \<open>Duel choices and ballots are relayed and nothing else\<close>

text \<open>
  C10. The listener of RPS_CHOICE and the listener of SUBMIT_VOTE end without an exception,
  leave the whole server state as it was (every table and the room membership), and emit
  one message, the payload's fields sent on to the room. So does any sequence of such
  events: the state after it is the state before it, with one emission per event.
\<close>

theorem choice_and_ballot_only_relayed:
  "handle env s sid (RPS_CHOICE roomId battleId userId c) =
     \<lparr>after = s, sent = [(rooms s roomId, RPS_CHOICE_RECEIVED battleId userId c)], raised = None\<rparr>
   \<and> handle env s sid (SUBMIT_VOTE roomId voteId userId isAgree) =
     \<lparr>after = s, sent = [(rooms s roomId, VOTE_RECEIVED voteId userId isAgree)], raised = None\<rparr>
   \<and> (list_all (\<lambda>x. choice_or_ballot (snd (snd x))) tr \<longrightarrow>
        after (run s tr) = s \<and> raised (run s tr) = None \<and> length (sent (run s tr)) = length tr)"
  using run_stateless [OF choice_or_ballot_stateless, of tr s]
  by (simp add: on_RPS_CHOICE_def on_SUBMIT_VOTE_def finished_def io_to_def)

theorem choice_and_ballot_only_relayed_witness:
  "list_all (\<lambda>x. choice_or_ballot (snd (snd x)))
     [(env_ok 1000, ''sock-A'', RPS_CHOICE ''room-1'' ''b1'' ''A'' ROCK),
      (env_ok 2000, ''sock-B'', SUBMIT_VOTE ''room-1'' ''vote_1000'' ''B'' True)]
   \<and> after (run room1
       [(env_ok 1000, ''sock-A'', RPS_CHOICE ''room-1'' ''b1'' ''A'' ROCK),
        (env_ok 2000, ''sock-B'', SUBMIT_VOTE ''room-1'' ''vote_1000'' ''B'' True)]) = room1
   \<and> length (sent (run room1
       [(env_ok 1000, ''sock-A'', RPS_CHOICE ''room-1'' ''b1'' ''A'' ROCK),
        (env_ok 2000, ''sock-B'', SUBMIT_VOTE ''room-1'' ''vote_1000'' ''B'' True)])) = 2"
proof -
  let ?tr = "[(env_ok 1000, ''sock-A'', RPS_CHOICE ''room-1'' ''b1'' ''A'' ROCK),
              (env_ok 2000, ''sock-B'', SUBMIT_VOTE ''room-1'' ''vote_1000'' ''B'' True)]"
  have h: "list_all (\<lambda>x. choice_or_ballot (snd (snd x))) ?tr" by simp
  have "after (run room1 ?tr) = room1 \<and> raised (run room1 ?tr) = None
          \<and> length (sent (run room1 ?tr)) = length ?tr"
    using choice_and_ballot_only_relayed [of _ room1 _ _ _ _ _ _ _ ?tr] h by blast
  then have "after (run room1 ?tr) = room1 \<and> length (sent (run room1 ?tr)) = 2"
    by (simp del: run.simps)
  with h show ?thesis by blast
qed

subsection \<open>Failed writes\<close>

text \<open>
  C8, as the specification states it, fails in its second half. With an engine that refuses
  the statement, a DRAW_ACTION and a SET_PIN_TIME from sock-A end with the exception of
  the write: nothing is broadcast, and nothing is sent to sock-A either, so the sender
  receives no error.
\<close>

theorem failed_write_reaches_nobody:
  "handle (env_down 1000) room1 ''sock-A'' (DRAW_ACTION ''room-1'' ''A'' ''stroke'' ''[[1,2]]'') =
     \<lparr>after = room1, sent = [], raised = Some StorageFailure\<rparr>
   \<and> handle (env_down 1000) room1 ''sock-A'' (SET_PIN_TIME ''room-1'' ''pin-3'' ''morning'' 2) =
     \<lparr>after = room1, sent = [], raised = Some StorageFailure\<rparr>"
  by (simp add: listener_defs env_down_def insert_canvas_event_def set_pin_time_def)

text \<open>
  C8, amended. For a DRAW_ACTION and for a SET_PIN_TIME event, if the persistence write
  fails the listener ends with the exception of the write: the mutation is not broadcast,
  the state is as before, and no message at all is sent, to the originating client or to
  anyone. A write that the engine does not carry out is such a failure.
\<close>

theorem failed_write_aborts_listener:
  "(\<not> db_ok env 0 \<longrightarrow>
      handle env s sid (DRAW_ACTION roomId userId ty payload) =
        \<lparr>after = s, sent = [], raised = Some StorageFailure\<rparr>
      \<and> handle env s sid (SET_PIN_TIME roomId pinId timeSlot day) =
        \<lparr>after = s, sent = [], raised = Some StorageFailure\<rparr>)
   \<and> (raised (handle env s sid (DRAW_ACTION roomId userId ty payload)) \<noteq> None \<longrightarrow>
        after (handle env s sid (DRAW_ACTION roomId userId ty payload)) = s
        \<and> sent (handle env s sid (DRAW_ACTION roomId userId ty payload)) = [])
   \<and> (raised (handle env s sid (SET_PIN_TIME roomId pinId timeSlot day)) \<noteq> None \<longrightarrow>
        after (handle env s sid (SET_PIN_TIME roomId pinId timeSlot day)) = s
        \<and> sent (handle env s sid (SET_PIN_TIME roomId pinId timeSlot day)) = [])"
  by (simp add: on_DRAW_ACTION_def on_SET_PIN_TIME_def insert_canvas_event_def set_pin_time_def
      finished_def threw_def Let_def)

theorem failed_write_aborts_listener_witness:
  "\<not> db_ok (env_down 1000) 0
   \<and> sent (handle (env_down 1000) room1 ''sock-A''
        (DRAW_ACTION ''room-1'' ''A'' ''stroke'' ''[[1,2]]'')) = []
   \<and> after (handle (env_down 1000) room1 ''sock-A''
        (SET_PIN_TIME ''room-1'' ''pin-3'' ''morning'' 2)) = room1"
proof -
  have h: "\<not> db_ok (env_down 1000) 0" by (simp add: env_down_def)
  from failed_write_aborts_listener [of "env_down 1000" room1 "''sock-A''" "''room-1''" "''A''"
      "''stroke''" "''[[1,2]]''" "''pin-3''" "''morning''" 2] h
  have "handle (env_down 1000) room1 ''sock-A''
          (DRAW_ACTION ''room-1'' ''A'' ''stroke'' ''[[1,2]]'') =
        \<lparr>after = room1, sent = [], raised = Some StorageFailure\<rparr>
      \<and> handle (env_down 1000) room1 ''sock-A''
          (SET_PIN_TIME ''room-1'' ''pin-3'' ''morning'' 2) =
        \<lparr>after = room1, sent = [], raised = Some StorageFailure\<rparr>"
    by blast
  with h show ?thesis by simp
qed

subsection \<open>Profiles\<close>

lemma users_after_profile:
  "list_ex (\<lambda>u. u_id u = userId) (users s) \<Longrightarrow>
   users (after (handle env s sid (UPDATE_PROFILE roomId userId nick avatarUrl))) =
     (if db_ok env 0
      then map (\<lambda>u. if u_id u = userId then u\<lparr>nickname := nick, avatar_url := avatarUrl\<rparr> else u)
             (users s)
      else users s)"
  by (simp add: on_UPDATE_PROFILE_def upsert_user_def finished_def threw_def)

lemma profile_frame_rows:
  "list_all2 (\<lambda>u u'. u_id u' = u_id u \<and> status_emoji u' = status_emoji u
                 \<and> rps_wins u' = rps_wins u \<and> undo_used u' = undo_used u
                 \<and> (u_id u \<noteq> userId \<longrightarrow> u' = u)
                 \<and> (u_id u = userId \<and> ok \<longrightarrow> nickname u' = nick \<and> avatar_url u' = avatarUrl))
     us
     (if ok then map (\<lambda>u. if u_id u = userId then u\<lparr>nickname := nick, avatar_url := avatarUrl\<rparr>
                            else u) us
      else us)"
  by (cases ok; induction us; simp)

text \<open>
  C9. When a row of \<^verbatim>\<open>users\<close> with the id of the payload exists, handling UPDATE_PROFILE
  keeps the table's rows in place, and row by row: the id, \<^verbatim>\<open>status_emoji\<close>,
  \<^verbatim>\<open>rps_wins\<close> and \<^verbatim>\<open>undo_used\<close> keep their values; a row of another user is unchanged
  altogether; the user's own row gets the new nickname and avatar when the engine
  carries out the statement. No other table changes, nor the room membership.
\<close>

theorem profile_update_frame:
  "list_ex (\<lambda>u. u_id u = userId) (users s) \<Longrightarrow>
   list_all2 (\<lambda>u u'. u_id u' = u_id u \<and> status_emoji u' = status_emoji u
                 \<and> rps_wins u' = rps_wins u \<and> undo_used u' = undo_used u
                 \<and> (u_id u \<noteq> userId \<longrightarrow> u' = u)
                 \<and> (u_id u = userId \<and> db_ok env 0 \<longrightarrow>
                      nickname u' = nick \<and> avatar_url u' = avatarUrl))
     (users s)
     (users (after (handle env s sid (UPDATE_PROFILE roomId userId nick avatarUrl))))
   \<and> trips (after (handle env s sid (UPDATE_PROFILE roomId userId nick avatarUrl))) = trips s
   \<and> pins (after (handle env s sid (UPDATE_PROFILE roomId userId nick avatarUrl))) = pins s
   \<and> canvas_events (after (handle env s sid (UPDATE_PROFILE roomId userId nick avatarUrl)))
       = canvas_events s
   \<and> rooms (after (handle env s sid (UPDATE_PROFILE roomId userId nick avatarUrl))) = rooms s"
proof -
  assume h: "list_ex (\<lambda>u. u_id u = userId) (users s)"
  have "trips (after (handle env s sid (UPDATE_PROFILE roomId userId nick avatarUrl))) = trips s
   \<and> pins (after (handle env s sid (UPDATE_PROFILE roomId userId nick avatarUrl))) = pins s
   \<and> canvas_events (after (handle env s sid (UPDATE_PROFILE roomId userId nick avatarUrl)))
       = canvas_events s
   \<and> rooms (after (handle env s sid (UPDATE_PROFILE roomId userId nick avatarUrl))) = rooms s"
    by (simp add: on_UPDATE_PROFILE_def finished_def threw_def split: sum.splits)
  then show ?thesis
    using profile_frame_rows [of userId "db_ok env 0" nick avatarUrl "users s"]
    by (simp only: users_after_profile [OF h])
qed

theorem profile_update_frame_witness:
  "list_ex (\<lambda>u. u_id u = ''A'') (users room2)
   \<and> users (after (handle (env_ok 1000) room2 ''sock-A''
        (UPDATE_PROFILE ''room-1'' ''A'' ''ally'' ''new.png''))) =
       [\<lparr>u_id = ''A'', nickname = ''ally'', avatar_url = ''new.png'',
         status_emoji = Some ''x'', rps_wins = 3, undo_used = 1\<rparr>, bob]"
proof -
  let ?o = "handle (env_ok 1000) room2 ''sock-A''
              (UPDATE_PROFILE ''room-1'' ''A'' ''ally'' ''new.png'')"
  have h: "list_ex (\<lambda>u. u_id u = ''A'') (users room2)"
    by (simp add: room2_def alice_def)
  have ok: "db_ok (env_ok 1000) 0" by (simp add: env_ok_def)
  have us: "users room2 = [alice, bob]" by (simp add: room2_def)
  from profile_update_frame [OF h, of "env_ok 1000" "''ally''" "''new.png''" "''sock-A''"
      "''room-1''"]
  have "list_all2 (\<lambda>u u'. u_id u' = u_id u \<and> status_emoji u' = status_emoji u
                 \<and> rps_wins u' = rps_wins u \<and> undo_used u' = undo_used u
                 \<and> (u_id u \<noteq> ''A'' \<longrightarrow> u' = u)
                 \<and> (u_id u = ''A'' \<and> db_ok (env_ok 1000) 0 \<longrightarrow>
                      nickname u' = ''ally'' \<and> avatar_url u' = ''new.png''))
     [alice, bob] (users (after ?o))"
    by (simp only: us)
  then obtain x y where xy: "users (after ?o) = [x, y]"
    and x: "u_id x = u_id alice \<and> status_emoji x = status_emoji alice
             \<and> rps_wins x = rps_wins alice \<and> undo_used x = undo_used alice
             \<and> (u_id alice = ''A'' \<and> db_ok (env_ok 1000) 0 \<longrightarrow>
                      nickname x = ''ally'' \<and> avatar_url x = ''new.png'')"
    and y: "u_id bob \<noteq> ''A'' \<longrightarrow> y = bob"
    by (auto simp only: list_all2_Cons1 list_all2_Nil)
  from x ok have "x = \<lparr>u_id = ''A'', nickname = ''ally'', avatar_url = ''new.png'',
         status_emoji = Some ''x'', rps_wins = 3, undo_used = 1\<rparr>"
    by (cases x) (simp add: alice_def)
  moreover from y have "y = bob" by (simp add: bob_def)
  ultimately show ?thesis using xy h by simp
qed

subsection \<open>Joining a room\<close>

text \<open>
  C6. The source announces a join with \<^verbatim>\<open>io.to(roomId).emit\<close> under the comment
  "Notify others about presence", after the socket has joined the room. When sock-D joins
  the room of sock-A, sock-B and sock-C, the USER_JOINED event, which carries the socket
  id and nothing else, goes to all four sockets, sock-D among them. DRAG_PIN, which uses
  \<^verbatim>\<open>socket.to(roomId).emit\<close>, does leave its sender out.
\<close>

theorem joiner_receives_own_join:
  "sent (handle (env_ok 1000) room1 ''sock-D'' (join_room ''room-1'')) =
     [({''sock-D''}, SYNC_TRIPS []),
      ({''sock-D'', ''sock-A'', ''sock-B'', ''sock-C''}, USER_JOINED ''sock-D'')]
   \<and> sent (handle (env_ok 1000) room1 ''sock-A'' (DRAG_PIN ''room-1'' ''pin-3'' ''A'')) =
     [({''sock-B'', ''sock-C''}, PIN_DRAG_START ''pin-3'' ''A'')]"
  by (simp add: listener_defs env_ok_def room1_def select_trips_def)

subsection \<open>Undo\<close>

lemma newest_nonempty: "sel \<noteq> [] \<Longrightarrow> newest sel \<noteq> []"
proof -
  assume ne: "sel \<noteq> []"
  let ?m = "Max (e_created_at ` set sel)"
  from ne have "?m \<in> e_created_at ` set sel" by (intro Max_in) auto
  then obtain e where e: "e \<in> set sel" "e_created_at e = ?m" by auto
  have "\<forall>e' \<in> set sel. e_created_at e' \<le> e_created_at e"
    using e(2) by simp
  with e(1) have "e \<in> set (newest sel)"
    by (simp add: newest_def list_all_iff)
  then show ?thesis by auto
qed

lemma newest_is_greatest:
  "e \<in> set (newest sel) \<Longrightarrow> e \<in> set sel \<and> (\<forall>e' \<in> set sel. e_created_at e' \<le> e_created_at e)"
  by (simp add: newest_def list_all_iff)

lemma undo_step_none:
  "db_ok env 0 \<Longrightarrow> undoable (canvas_events s) roomId = [] \<Longrightarrow>
     handle env s sid (UNDO_REQUEST (Str roomId)) = \<lparr>after = s, sent = [], raised = None\<rparr>"
  by (simp add: on_UNDO_REQUEST_def last_canvas_event_def newest_def finished_def)

lemma undo_step_some:
  assumes "db_ok env 0" "db_ok env 1" "undoable (canvas_events s) roomId \<noteq> []"
  shows "\<exists>e \<in> set (newest (undoable (canvas_events s) roomId)).
     handle env s sid (UNDO_REQUEST (Str roomId)) =
       \<lparr>after = s\<lparr>canvas_events := set_is_undone (e_id e) (canvas_events s)\<rparr>,
        sent = [(rooms s roomId, UNDO_EXECUTE (e_id e))], raised = None\<rparr>"
proof -
  let ?top = "newest (undoable (canvas_events s) roomId)"
  from assms(3) have ne: "?top \<noteq> []" by (rule newest_nonempty)
  then have "?top ! (tie env mod length ?top) \<in> set ?top" by simp
  moreover have "handle env s sid (UNDO_REQUEST (Str roomId)) =
       \<lparr>after = s\<lparr>canvas_events :=
                  set_is_undone (e_id (?top ! (tie env mod length ?top))) (canvas_events s)\<rparr>,
        sent = [(rooms s roomId, UNDO_EXECUTE (e_id (?top ! (tie env mod length ?top))))],
        raised = None\<rparr>"
    using assms(1,2) ne
    by (simp add: on_UNDO_REQUEST_def last_canvas_event_def mark_undone_def
        finished_def io_to_def Let_def)
  ultimately show ?thesis by blast
qed

lemma undoable_set_is_undone:
  "undoable (set_is_undone i tbl) roomId = filter (\<lambda>e. e_id e \<noteq> i) (undoable tbl roomId)"
  by (induction tbl) (simp_all add: undoable_def set_is_undone_def)

lemma distinct_undoable:
  "distinct (map e_id tbl) \<Longrightarrow> distinct (map e_id (undoable tbl roomId))"
  by (simp add: undoable_def distinct_map_filter)

lemma length_without:
  "distinct (map f xs) \<Longrightarrow> x \<in> set xs \<Longrightarrow>
     length (filter (\<lambda>y. f y \<noteq> f x) xs) = length xs - 1"
proof (induction xs)
  case Nil
  then show ?case by simp
next
  case (Cons a xs)
  show ?case
  proof (cases "f a = f x")
    case True
    with Cons.prems have "\<forall>y \<in> set xs. f y \<noteq> f x"
      by (metis distinct.simps(2) image_eqI list.simps(9) set_map)
    then have "filter (\<lambda>y. f y \<noteq> f x) xs = xs" by (simp add: filter_id_conv)
    with True show ?thesis by simp
  next
    case False
    with Cons.prems have "x \<in> set xs" by auto
    with Cons have "length (filter (\<lambda>y. f y \<noteq> f x) xs) = length xs - 1" by simp
    moreover from \<open>x \<in> set xs\<close> have "0 < length xs" by (cases xs) auto
    ultimately show ?thesis using False by simp
  qed
qed

lemma same_id_same_row:
  "distinct (map f xs) \<Longrightarrow> x \<in> set xs \<Longrightarrow> y \<in> set xs \<Longrightarrow> f x = f y \<Longrightarrow> x = y"
  by (meson distinct_map inj_onD)

text \<open>
  What an UNDO_REQUEST with a room id does guarantee. Let the engine carry out the
  statements of the listener. If no row of \<^verbatim>\<open>canvas_events\<close> has the room's id and
  \<^verbatim>\<open>is_undone = 0\<close>, the request ends with the state as it was and nothing emitted.
  Otherwise there is a row \<open>e\<close> of the room with \<^verbatim>\<open>is_undone = 0\<close> whose
  \<^verbatim>\<open>created_at\<close> no other such row exceeds; the rows with the id of \<open>e\<close> get
  \<^verbatim>\<open>is_undone = 1\<close>, nothing else changes, and the room is sent one UNDO_EXECUTE with
  that id. Which row it is among several of the same \<^verbatim>\<open>created_at\<close> is the engine's
  choice.
\<close>

theorem undo_request_marks_newest:
  "(db_ok env 0 \<and> undoable (canvas_events s) roomId = [] \<longrightarrow>
      handle env s sid (UNDO_REQUEST (Str roomId)) = \<lparr>after = s, sent = [], raised = None\<rparr>)
   \<and> (db_ok env 0 \<and> db_ok env 1 \<and> undoable (canvas_events s) roomId \<noteq> [] \<longrightarrow>
        (\<exists>e. e \<in> set (canvas_events s) \<and> e_room_id e = roomId \<and> is_undone e = 0
           \<and> (\<forall>e' \<in> set (canvas_events s).
                 e_room_id e' = roomId \<and> is_undone e' = 0 \<longrightarrow> e_created_at e' \<le> e_created_at e)
           \<and> handle env s sid (UNDO_REQUEST (Str roomId)) =
               \<lparr>after = s\<lparr>canvas_events := set_is_undone (e_id e) (canvas_events s)\<rparr>,
                sent = [(rooms s roomId, UNDO_EXECUTE (e_id e))], raised = None\<rparr>))"
proof (intro conjI impI)
  assume "db_ok env 0 \<and> undoable (canvas_events s) roomId = []"
  then show "handle env s sid (UNDO_REQUEST (Str roomId)) = \<lparr>after = s, sent = [], raised = None\<rparr>"
    using undo_step_none [of env s roomId sid] by blast
next
  assume a: "db_ok env 0 \<and> db_ok env 1 \<and> undoable (canvas_events s) roomId \<noteq> []"
  then obtain e where top: "e \<in> set (newest (undoable (canvas_events s) roomId))"
    and h: "handle env s sid (UNDO_REQUEST (Str roomId)) =
       \<lparr>after = s\<lparr>canvas_events := set_is_undone (e_id e) (canvas_events s)\<rparr>,
        sent = [(rooms s roomId, UNDO_EXECUTE (e_id e))], raised = None\<rparr>"
    using undo_step_some [of env s roomId sid] by blast
  from newest_is_greatest [OF top]
  have "e \<in> set (canvas_events s) \<and> e_room_id e = roomId \<and> is_undone e = 0"
    and "\<forall>e' \<in> set (canvas_events s).
           e_room_id e' = roomId \<and> is_undone e' = 0 \<longrightarrow> e_created_at e' \<le> e_created_at e"
    by (simp_all add: undoable_def)
  with h show "\<exists>e. e \<in> set (canvas_events s) \<and> e_room_id e = roomId \<and> is_undone e = 0
           \<and> (\<forall>e' \<in> set (canvas_events s).
                 e_room_id e' = roomId \<and> is_undone e' = 0 \<longrightarrow> e_created_at e' \<le> e_created_at e)
           \<and> handle env s sid (UNDO_REQUEST (Str roomId)) =
               \<lparr>after = s\<lparr>canvas_events := set_is_undone (e_id e) (canvas_events s)\<rparr>,
                sent = [(rooms s roomId, UNDO_EXECUTE (e_id e))], raised = None\<rparr>"
    by blast
qed

theorem undo_request_marks_newest_witness:
  "db_ok (env_ok 9000) 0 \<and> db_ok (env_ok 9000) 1
   \<and> undoable (canvas_events room1) ''room-1'' = []
   \<and> undoable (canvas_events room3) ''room-1'' \<noteq> []
   \<and> handle (env_ok 9000) room1 ''sock-A'' (UNDO_REQUEST (Str ''room-1'')) =
       \<lparr>after = room1, sent = [], raised = None\<rparr>
   \<and> handle (env_ok 9000) room3 ''sock-A'' (UNDO_REQUEST (Str ''room-1'')) =
       \<lparr>after = room3\<lparr>canvas_events := [stroke1, stroke2\<lparr>is_undone := 1\<rparr>, stroke3]\<rparr>,
        sent = [({''sock-A'', ''sock-B'', ''sock-C''}, UNDO_EXECUTE ''evt_2000_bbb'')],
        raised = None\<rparr>"
proof -
  have ok: "db_ok (env_ok 9000) 0 \<and> db_ok (env_ok 9000) 1" by (simp add: env_ok_def)
  have u1: "undoable (canvas_events room1) ''room-1'' = []"
    by (simp add: undoable_def room1_def)
  have u3: "undoable (canvas_events room3) ''room-1'' \<noteq> []"
    by (simp add: undoable_def room3_def stroke1_def)
  have tbl: "canvas_events room3 = [stroke1, stroke2, stroke3]" by (simp add: room3_def)
  have n1: "handle (env_ok 9000) room1 ''sock-A'' (UNDO_REQUEST (Str ''room-1'')) =
       \<lparr>after = room1, sent = [], raised = None\<rparr>"
    using undo_request_marks_newest [of "env_ok 9000" room1 "''room-1''" "''sock-A''"] ok u1
    by blast
  obtain e where e: "e \<in> set (canvas_events room3)" "e_room_id e = ''room-1''"
    and mx: "\<forall>e' \<in> set (canvas_events room3).
                 e_room_id e' = ''room-1'' \<and> is_undone e' = 0 \<longrightarrow> e_created_at e' \<le> e_created_at e"
    and h: "handle (env_ok 9000) room3 ''sock-A'' (UNDO_REQUEST (Str ''room-1'')) =
               \<lparr>after = room3\<lparr>canvas_events := set_is_undone (e_id e) (canvas_events room3)\<rparr>,
                sent = [(rooms room3 ''room-1'', UNDO_EXECUTE (e_id e))], raised = None\<rparr>"
    using undo_request_marks_newest [of "env_ok 9000" room3 "''room-1''" "''sock-A''"] ok u3
    by blast
  from mx have "e_created_at stroke2 \<le> e_created_at e"
    by (simp add: tbl stroke2_def)
  with e have "e = stroke2"
    by (auto simp add: tbl stroke1_def stroke2_def stroke3_def)
  with h have "handle (env_ok 9000) room3 ''sock-A'' (UNDO_REQUEST (Str ''room-1'')) =
       \<lparr>after = room3\<lparr>canvas_events := [stroke1, stroke2\<lparr>is_undone := 1\<rparr>, stroke3]\<rparr>,
        sent = [({''sock-A'', ''sock-B'', ''sock-C''}, UNDO_EXECUTE ''evt_2000_bbb'')],
        raised = None\<rparr>"
    by (simp add: tbl set_is_undone_def stroke1_def stroke2_def stroke3_def room3_def room1_def)
  with ok u1 u3 n1 show ?thesis by blast
qed

text \<open>
  Two and three requests in a row. Let the ids of \<^verbatim>\<open>canvas_events\<close> be distinct (the
  primary key), let the room have at least two rows with \<^verbatim>\<open>is_undone = 0\<close>, and let
  the engine carry out the statements. Two UNDO_REQUEST events in a row then flag two
  different rows \<open>e1\<close> and \<open>e2\<close> of the room, never the same row twice: \<open>e1\<close> is
  one that no undoable row exceeds in \<^verbatim>\<open>created_at\<close>, \<open>e2\<close> one that no undoable
  row other than \<open>e1\<close> exceeds. If the room had exactly two undoable rows, a third
  UNDO_REQUEST adds nothing: same state, same emissions, no exception.
\<close>

theorem undo_twice_then_noop:
  assumes ok: "db_ok env1 0 \<and> db_ok env1 1 \<and> db_ok env2 0 \<and> db_ok env2 1"
    and keys: "distinct (map e_id (canvas_events s))"
    and two: "2 \<le> length (undoable (canvas_events s) roomId)"
  shows "\<exists>e1 e2. e1 \<in> set (undoable (canvas_events s) roomId)
     \<and> e2 \<in> set (undoable (canvas_events s) roomId)
     \<and> e1 \<noteq> e2 \<and> e_id e1 \<noteq> e_id e2
     \<and> (\<forall>e \<in> set (undoable (canvas_events s) roomId). e_created_at e \<le> e_created_at e1)
     \<and> (\<forall>e \<in> set (undoable (canvas_events s) roomId).
           e \<noteq> e1 \<longrightarrow> e_created_at e \<le> e_created_at e2)
     \<and> run s [(env1, sid1, UNDO_REQUEST (Str roomId)), (env2, sid2, UNDO_REQUEST (Str roomId))] =
         \<lparr>after = s\<lparr>canvas_events :=
                    set_is_undone (e_id e2) (set_is_undone (e_id e1) (canvas_events s))\<rparr>,
          sent = [(rooms s roomId, UNDO_EXECUTE (e_id e1)),
                  (rooms s roomId, UNDO_EXECUTE (e_id e2))],
          raised = None\<rparr>
     \<and> (db_ok env3 0 \<and> length (undoable (canvas_events s) roomId) = 2 \<longrightarrow>
          run s [(env1, sid1, UNDO_REQUEST (Str roomId)), (env2, sid2, UNDO_REQUEST (Str roomId)),
                 (env3, sid3, UNDO_REQUEST (Str roomId))] =
          run s [(env1, sid1, UNDO_REQUEST (Str roomId)), (env2, sid2, UNDO_REQUEST (Str roomId))])"
proof -
  let ?tbl = "canvas_events s"
  let ?U = "undoable ?tbl roomId"
  have dU: "distinct (map e_id ?U)" using keys by (rule distinct_undoable)
  from two have ne: "?U \<noteq> []" by auto
  with ok obtain e1 where top1: "e1 \<in> set (newest ?U)"
    and h1: "handle env1 s sid1 (UNDO_REQUEST (Str roomId)) =
       \<lparr>after = s\<lparr>canvas_events := set_is_undone (e_id e1) ?tbl\<rparr>,
        sent = [(rooms s roomId, UNDO_EXECUTE (e_id e1))], raised = None\<rparr>"
    using undo_step_some [of env1 s roomId sid1] by blast
  from newest_is_greatest [OF top1]
  have e1: "e1 \<in> set ?U" and m1: "\<forall>e \<in> set ?U. e_created_at e \<le> e_created_at e1"
    by simp_all
  let ?s1 = "s\<lparr>canvas_events := set_is_undone (e_id e1) ?tbl\<rparr>"
  let ?U1 = "undoable (canvas_events ?s1) roomId"
  have U1: "?U1 = filter (\<lambda>e. e_id e \<noteq> e_id e1) ?U" by (simp add: undoable_set_is_undone)
  have len1: "length ?U1 = length ?U - 1"
    using length_without [OF dU e1] U1 by simp
  with two have ne1: "?U1 \<noteq> []" by auto
  with ok obtain e2 where top2: "e2 \<in> set (newest ?U1)"
    and h2: "handle env2 ?s1 sid2 (UNDO_REQUEST (Str roomId)) =
       \<lparr>after = ?s1\<lparr>canvas_events := set_is_undone (e_id e2) (canvas_events ?s1)\<rparr>,
        sent = [(rooms ?s1 roomId, UNDO_EXECUTE (e_id e2))], raised = None\<rparr>"
    using undo_step_some [of env2 ?s1 roomId sid2] by blast
  from newest_is_greatest [OF top2]
  have e2U1: "e2 \<in> set ?U1" and m2': "\<forall>e \<in> set ?U1. e_created_at e \<le> e_created_at e2"
    by simp_all
  from e2U1 U1 have e2: "e2 \<in> set ?U" and id12: "e_id e1 \<noteq> e_id e2" by auto
  then have neq: "e1 \<noteq> e2" by auto
  have m2: "\<forall>e \<in> set ?U. e \<noteq> e1 \<longrightarrow> e_created_at e \<le> e_created_at e2"
  proof (intro ballI impI)
    fix e assume e: "e \<in> set ?U" and "e \<noteq> e1"
    with same_id_same_row [OF dU e e1] have "e_id e \<noteq> e_id e1" by blast
    with e U1 have "e \<in> set ?U1" by simp
    with m2' show "e_created_at e \<le> e_created_at e2" by blast
  qed
  let ?s2 = "s\<lparr>canvas_events := set_is_undone (e_id e2) (set_is_undone (e_id e1) ?tbl)\<rparr>"
  have r2: "run s [(env1, sid1, UNDO_REQUEST (Str roomId)), (env2, sid2, UNDO_REQUEST (Str roomId))] =
         \<lparr>after = ?s2,
          sent = [(rooms s roomId, UNDO_EXECUTE (e_id e1)),
                  (rooms s roomId, UNDO_EXECUTE (e_id e2))],
          raised = None\<rparr>"
    using h1 h2 by (simp add: Let_def finished_def del: handle.simps)
  have r3: "run s [(env1, sid1, UNDO_REQUEST (Str roomId)), (env2, sid2, UNDO_REQUEST (Str roomId)),
                 (env3, sid3, UNDO_REQUEST (Str roomId))] =
          run s [(env1, sid1, UNDO_REQUEST (Str roomId)), (env2, sid2, UNDO_REQUEST (Str roomId))]"
    if ok3: "db_ok env3 0" and ex: "length ?U = 2"
  proof -
    have dU1: "distinct (map e_id ?U1)"
      unfolding U1 using dU by (simp add: distinct_map_filter)
    have "undoable (canvas_events ?s2) roomId = filter (\<lambda>e. e_id e \<noteq> e_id e2) ?U1"
      by (simp add: undoable_set_is_undone)
    moreover have "length (filter (\<lambda>e. e_id e \<noteq> e_id e2) ?U1) = length ?U1 - 1"
      using length_without [OF dU1 e2U1] by simp
    ultimately have "undoable (canvas_events ?s2) roomId = []"
      using len1 ex by simp
    from undo_step_none [OF ok3 this, of sid3]
    have h3: "handle env3 ?s2 sid3 (UNDO_REQUEST (Str roomId)) =
        \<lparr>after = ?s2, sent = [], raised = None\<rparr>" .
    show ?thesis
      using h1 h2 h3 by (simp add: Let_def finished_def del: handle.simps)
  qed
  from e1 e2 neq id12 m1 m2 r2 r3 show ?thesis by blast
qed

theorem undo_twice_then_noop_witness:
  "db_ok (env_ok 9000) 0 \<and> db_ok (env_ok 9000) 1 \<and> db_ok (env_ok 9500) 0
   \<and> db_ok (env_ok 9500) 1 \<and> db_ok (env_ok 9900) 0
   \<and> distinct (map e_id (canvas_events room3))
   \<and> length (undoable (canvas_events room3) ''room-1'') = 2
   \<and> run room3 undo_thrice =
       \<lparr>after = room3\<lparr>canvas_events :=
                  [stroke1\<lparr>is_undone := 1\<rparr>, stroke2\<lparr>is_undone := 1\<rparr>, stroke3]\<rparr>,
        sent = [({''sock-A'', ''sock-B'', ''sock-C''}, UNDO_EXECUTE ''evt_2000_bbb''),
                ({''sock-A'', ''sock-B'', ''sock-C''}, UNDO_EXECUTE ''evt_1000_aaa'')],
        raised = None\<rparr>"
proof -
  have ok: "db_ok (env_ok 9000) 0 \<and> db_ok (env_ok 9000) 1 \<and> db_ok (env_ok 9500) 0
      \<and> db_ok (env_ok 9500) 1"
    and ok3: "db_ok (env_ok 9900) 0"
    by (simp_all add: env_ok_def)
  have tbl: "canvas_events room3 = [stroke1, stroke2, stroke3]" by (simp add: room3_def)
  have keys: "distinct (map e_id (canvas_events room3))"
    by (simp add: tbl stroke1_def stroke2_def stroke3_def)
  have U: "undoable (canvas_events room3) ''room-1'' = [stroke1, stroke2]"
    by (simp add: tbl undoable_def stroke1_def stroke2_def stroke3_def)
  then have two: "2 \<le> length (undoable (canvas_events room3) ''room-1'')" by simp
  from undo_twice_then_noop [OF ok keys two, of "''sock-A''" "''sock-B''" "env_ok 9900"
      "''sock-A''"]
  obtain e1 e2 where e1: "e1 \<in> set [stroke1, stroke2]" and e2: "e2 \<in> set [stroke1, stroke2]"
    and neq: "e1 \<noteq> e2"
    and mx: "\<forall>e \<in> set [stroke1, stroke2]. e_created_at e \<le> e_created_at e1"
    and r2: "run room3 [(env_ok 9000, ''sock-A'', UNDO_REQUEST (Str ''room-1'')),
                        (env_ok 9500, ''sock-B'', UNDO_REQUEST (Str ''room-1''))] =
         \<lparr>after = room3\<lparr>canvas_events :=
                    set_is_undone (e_id e2) (set_is_undone (e_id e1) (canvas_events room3))\<rparr>,
          sent = [(rooms room3 ''room-1'', UNDO_EXECUTE (e_id e1)),
                  (rooms room3 ''room-1'', UNDO_EXECUTE (e_id e2))],
          raised = None\<rparr>"
    and r3: "db_ok (env_ok 9900) 0 \<and> length (undoable (canvas_events room3) ''room-1'') = 2 \<longrightarrow>
          run room3 [(env_ok 9000, ''sock-A'', UNDO_REQUEST (Str ''room-1'')),
                     (env_ok 9500, ''sock-B'', UNDO_REQUEST (Str ''room-1'')),
                     (env_ok 9900, ''sock-A'', UNDO_REQUEST (Str ''room-1''))] =
          run room3 [(env_ok 9000, ''sock-A'', UNDO_REQUEST (Str ''room-1'')),
                     (env_ok 9500, ''sock-B'', UNDO_REQUEST (Str ''room-1''))]"
    unfolding U by blast
  from mx have "e_created_at stroke2 \<le> e_created_at e1" by simp
  with e1 have f1: "e1 = stroke2" by (auto simp add: stroke1_def stroke2_def)
  with e2 neq have f2: "e2 = stroke1" by auto
  from r3 ok3 U have "run room3 undo_thrice =
      run room3 [(env_ok 9000, ''sock-A'', UNDO_REQUEST (Str ''room-1'')),
                 (env_ok 9500, ''sock-B'', UNDO_REQUEST (Str ''room-1''))]"
    by (simp add: undo_thrice_def del: run.simps)
  also have "\<dots> = \<lparr>after = room3\<lparr>canvas_events :=
                  [stroke1\<lparr>is_undone := 1\<rparr>, stroke2\<lparr>is_undone := 1\<rparr>, stroke3]\<rparr>,
        sent = [({''sock-A'', ''sock-B'', ''sock-C''}, UNDO_EXECUTE ''evt_2000_bbb''),
                ({''sock-A'', ''sock-B'', ''sock-C''}, UNDO_EXECUTE ''evt_1000_aaa'')],
        raised = None\<rparr>"
    unfolding r2 f1 f2
    by (simp add: tbl set_is_undone_def stroke1_def stroke2_def stroke3_def room3_def room1_def)
  finally show ?thesis using ok ok3 keys U by simp
qed

text \<open>
  C4. The listener asks for the row of the room that was created last, and misses it as
  soon as two rows share a \<^verbatim>\<open>created_at\<close>: \<^verbatim>\<open>CURRENT_TIMESTAMP\<close> counts whole
  seconds and the statement names no second sort key, so of the rows of the latest second
  SQLite returns the one inserted first. Three strokes drawn in room-1 at 1000, 1200 and
  1400 ms get the same \<^verbatim>\<open>created_at\<close>. The UNDO_REQUEST that follows flags the first
  of them and announces its id to the room; the stroke drawn last stays.
\<close>

theorem undo_takes_oldest_of_the_second:
  "map e_id (canvas_events (after (run room1 three_strokes))) =
     [''evt_1000_k3j9x0a1z'', ''evt_1200_k3j9x0a1z'', ''evt_1400_k3j9x0a1z'']
   \<and> map e_created_at (canvas_events (after (run room1 three_strokes))) = [1, 1, 1]
   \<and> map snd (sent (run (after (run room1 three_strokes)) undo_once)) =
       [UNDO_EXECUTE ''evt_1000_k3j9x0a1z'']
   \<and> map is_undone (canvas_events (after (run (after (run room1 three_strokes)) undo_once))) =
       [1, 0, 0]"
  by (simp add: three_strokes_def undo_once_def listener_defs Let_def env_ok_def room1_def
      insert_canvas_event_def last_canvas_event_def mark_undone_def set_is_undone_def
      undoable_def newest_def string_of_nat.simps)

text \<open>
  C5. For the same reason two requests in a row do not undo the two most recent events.
  After the three strokes of one second, two UNDO_REQUEST events flag the first and the
  second stroke, in that order, and the stroke drawn last is still not undone.
\<close>

theorem two_undos_leave_the_last_stroke:
  "map e_id (canvas_events (after (run room1 three_strokes))) =
     [''evt_1000_k3j9x0a1z'', ''evt_1200_k3j9x0a1z'', ''evt_1400_k3j9x0a1z'']
   \<and> map snd (sent (run (after (run room1 three_strokes)) undo_twice)) =
       [UNDO_EXECUTE ''evt_1000_k3j9x0a1z'', UNDO_EXECUTE ''evt_1200_k3j9x0a1z'']
   \<and> map is_undone (canvas_events (after (run (after (run room1 three_strokes)) undo_twice))) =
       [1, 1, 0]"
  by (simp add: three_strokes_def undo_twice_def listener_defs Let_def env_ok_def room1_def
      insert_canvas_event_def last_canvas_event_def mark_undone_def set_is_undone_def
      undoable_def newest_def string_of_nat.simps)

text \<open>
  The request as the bundled client sends it, an object instead of the room id, undoes
  nothing and reaches nobody, whatever the log holds.
\<close>

lemma undo_with_object_argument:
  "handle env s sid (UNDO_REQUEST (Obj kvs)) =
     \<lparr>after = s, sent = [], raised = Some (if db_ok env 0 then BindFailure else StorageFailure)\<rparr>"
  by (simp add: on_UNDO_REQUEST_def threw_def)

lemma undo_from_bundled_client:
  "handle (env_ok 9000) room3 ''sock-A'' (UNDO_REQUEST (Obj [(''roomId'', ''room-1'')])) =
     \<lparr>after = room3, sent = [], raised = Some BindFailure\<rparr>"
  by (simp add: undo_with_object_argument env_ok_def del: handle.simps)

text \<open>
  Under the PostgreSQL branch the statements of the listeners reach the engine with
  their placeholders numbered by offset, not by position.
\<close>

lemma pg_placeholders_by_offset:
  "pg_placeholders ''SELECT * FROM trips WHERE room_id = ?'' =
     ''SELECT * FROM trips WHERE room_id = $37''
   \<and> pg_placeholders ''UPDATE canvas_events SET is_undone = 1 WHERE id = ?'' =
     ''UPDATE canvas_events SET is_undone = 1 WHERE id = $51''
   \<and> pg_placeholders ''UPDATE pins SET assigned_day = ? WHERE id = ?'' =
     ''UPDATE pins SET assigned_day = $32 WHERE id = $45''"
  by (simp add: pg_placeholders_def string_of_nat.simps)

end
